theory Spec2Isabelle
  imports Main "HOL-Library.Word" "HOL-Library.Multiset"
begin

section \<open>JavaScript values\<close>

text \<open>
  A JavaScript string is a sequence of UTF-16 code units. The two verdict strings of the
  source are outside ASCII, so strings are lists of 16-bit words and the literals of the
  source are written out as their code units; ASCII literals go through \<open>ascii\<close>.
\<close>

type_synonym jsstring = "16 word list"

definition ascii :: "string \<Rightarrow> jsstring" where
  "ascii s = map of_char s"

text \<open>
  The values a cell accessor can hand to \<open>normalizeText(v: any)\<close>: the data of the
  language (no functions, symbols or accessor properties). A Number is carried as the string that \<open>Number::toString\<close> gives for it
  (\<open>"5"\<close>, \<open>"1.5"\<close>, \<open>"NaN"\<close>; \<open>-0\<close> is \<open>"0"\<close>): the source never computes with a cell
  value, it only tests, compares and prints it, and all three depend on that string alone.
  An object is the list of its own properties; its prototype is \<open>Object.prototype\<close>.
\<close>

datatype jsval =
    JNull
  | JUndefined
  | JString jsstring
  | JNumber jsstring
  | JBoolean bool
  | JArray "jsval list"
  | JObject "(jsstring \<times> jsval) list"

datatype js_error = TypeError | Rejected jsstring

text \<open>
  \<open>ToString\<close> of the language, which is what \<open>String(v)\<close> and a computed property key
  \<open>map[v]\<close> apply. An array prints as \<open>join(",")\<close> of its elements, \<open>null\<close> and
  \<open>undefined\<close> elements printing as nothing. A plain object prints through the inherited
  \<open>Object.prototype.toString\<close>; an own property \<open>toString\<close> holding data hides it, the
  inherited \<open>valueOf\<close> returns the object itself, and the conversion throws a TypeError.
\<close>

fun ToString :: "jsval \<Rightarrow> js_error + jsstring"
  and join_elems :: "jsval list \<Rightarrow> js_error + jsstring"
  and elem_str :: "jsval \<Rightarrow> js_error + jsstring" where
  "ToString JNull = Inr (ascii ''null'')"
| "ToString JUndefined = Inr (ascii ''undefined'')"
| "ToString (JString s) = Inr s"
| "ToString (JNumber s) = Inr s"
| "ToString (JBoolean b) = Inr (if b then ascii ''true'' else ascii ''false'')"
| "ToString (JArray vs) = join_elems vs"
| "ToString (JObject ps) =
     (case map_of ps (ascii ''toString'') of
        Some f \<Rightarrow> Inl TypeError
      | None \<Rightarrow> Inr (ascii ''[object Object]''))"
| "join_elems [] = Inr []"
| "join_elems [v] = elem_str v"
| "join_elems (v # w # vs) =
     (case elem_str v of
        Inl e \<Rightarrow> Inl e
      | Inr s \<Rightarrow>
          (case join_elems (w # vs) of
             Inl e \<Rightarrow> Inl e
           | Inr t \<Rightarrow> Inr (s @ ascii '','' @ t)))"
| "elem_str JNull = Inr []"
| "elem_str JUndefined = Inr []"
| "elem_str v = ToString v"

text \<open>The operand of \<open>!v\<close>: the falsy values.\<close>

fun falsy :: "jsval \<Rightarrow> bool" where
  "falsy JNull = True"
| "falsy JUndefined = True"
| "falsy (JString s) = (s = [])"
| "falsy (JNumber s) = (s = ascii ''0'' \<or> s = ascii ''NaN'')"
| "falsy (JBoolean b) = (\<not> b)"
| "falsy (JArray vs) = False"
| "falsy (JObject ps) = False"

section \<open>normalizeText\<close>

text \<open>
  \<open>(v as any).text as string\<close> is a compile-time cast: the property's value is returned
  as it is, whatever it is. So the result is a value, not always a string, and
  \<open>String(v)\<close> can throw.
\<close>

definition String_of :: "jsval \<Rightarrow> js_error + jsval" where
  "String_of v = (case ToString v of Inl e \<Rightarrow> Inl e | Inr s \<Rightarrow> Inr (JString s))"

fun normalizeText :: "jsval \<Rightarrow> js_error + jsval" where
  "normalizeText JNull = Inr (JString [])"
| "normalizeText JUndefined = Inr (JString [])"
| "normalizeText (JString s) = Inr (JString s)"
| "normalizeText (JArray []) = Inr (JString [])"
| "normalizeText (JArray (v # vs)) = normalizeText v"
| "normalizeText (JObject ps) =
     (case map_of ps (ascii ''text'') of
        Some t \<Rightarrow> Inr t
      | None \<Rightarrow>
          (case map_of ps (ascii ''name'') of
             Some n \<Rightarrow> Inr n
           | None \<Rightarrow> String_of (JObject ps)))"
| "normalizeText (JNumber s) = String_of (JNumber s)"
| "normalizeText (JBoolean b) = String_of (JBoolean b)"

section \<open>The tallies\<close>

text \<open>
  One tally per behaviour: four counters, each starting at 0 and only ever increased by 1,
  so natural numbers. \<open>ILinePoint\<close> is a tally together with its behaviour.
\<close>

record tally =
  aiNormal :: nat
  aiViolation :: nat
  reviewerNormal :: nat
  reviewerViolation :: nat

record ILinePoint = tally +
  behavior :: jsstring

definition zero_tally :: tally where
  "zero_tally = \<lparr>aiNormal = 0, aiViolation = 0, reviewerNormal = 0, reviewerViolation = 0\<rparr>"

text \<open>The two verdict literals of the source, as code units.\<close>

definition verdict_normal :: jsstring where
  "verdict_normal = [0x6B63, 0x5E38]"

definition verdict_violation :: jsstring where
  "verdict_violation = [0x8FDD, 0x89C4]"

text \<open>
  \<open>map\<close> is the object literal \<open>{}\<close>: its own properties, kept here in creation order,
  and behind them the properties of \<open>Object.prototype\<close>. A read \<open>map[k]\<close> of a key that is
  not an own property finds the inherited member when \<open>k\<close> names one; each of them is a
  function or an object, so \<open>!map[k]\<close> is false.
\<close>

type_synonym tallies = "(jsstring \<times> tally) list"

definition Object_prototype_keys :: "jsstring list" where
  "Object_prototype_keys =
     [ascii ''constructor'', ascii ''__defineGetter__'', ascii ''__defineSetter__'',
      ascii ''hasOwnProperty'', ascii ''__lookupGetter__'', ascii ''__lookupSetter__'',
      ascii ''isPrototypeOf'', ascii ''propertyIsEnumerable'', ascii ''toString'',
      ascii ''valueOf'', ascii ''__proto__'', ascii ''toLocaleString'']"

definition count_ai :: "jsval \<Rightarrow> tally \<Rightarrow> tally" where
  "count_ai aiText t =
     (if aiText = JString verdict_normal then t\<lparr>aiNormal := aiNormal t + 1\<rparr>
      else if aiText = JString verdict_violation then t\<lparr>aiViolation := aiViolation t + 1\<rparr>
      else t)"

definition count_reviewer :: "jsval \<Rightarrow> tally \<Rightarrow> tally" where
  "count_reviewer reviewerText t =
     (if reviewerText = JString verdict_normal
        then t\<lparr>reviewerNormal := reviewerNormal t + 1\<rparr>
      else if reviewerText = JString verdict_violation
        then t\<lparr>reviewerViolation := reviewerViolation t + 1\<rparr>
      else t)"

text \<open>
  \<open>if (!map[behavior]) map[behavior] = {...}\<close>: a new own property, unless the key is
  already one or names an inherited member.
\<close>

definition ensure_tally :: "jsstring \<Rightarrow> tallies \<Rightarrow> tallies" where
  "ensure_tally k m =
     (if map_of m k = None \<and> k \<notin> set Object_prototype_keys
      then m @ [(k, zero_tally)] else m)"

text \<open>
  \<open>map[behavior].x += 1\<close>: on the own tally when there is one. Otherwise the object
  written to is the inherited member, and no own property of \<open>map\<close> changes.
\<close>

definition update_tally :: "jsstring \<Rightarrow> (tally \<Rightarrow> tally) \<Rightarrow> tallies \<Rightarrow> tallies" where
  "update_tally k f m = map (\<lambda>(k', t). if k' = k then (k', f t) else (k', t)) m"

text \<open>The body of the loop after the three values are fetched (lines 130 to 158).\<close>

definition tally_record :: "tallies \<Rightarrow> jsval \<times> jsval \<times> jsval \<Rightarrow> js_error + tallies" where
  "tally_record m row =
     (case row of (behaviorRaw, aiRaw, reviewerRaw) \<Rightarrow>
      (case normalizeText behaviorRaw of
         Inl e \<Rightarrow> Inl e
       | Inr behavior' \<Rightarrow>
           if falsy behavior' then Inr m
           else
             (case ToString behavior' of
                Inl e \<Rightarrow> Inl e
              | Inr k \<Rightarrow>
                  (case normalizeText aiRaw of
                     Inl e \<Rightarrow> Inl e
                   | Inr aiText \<Rightarrow>
                       (case normalizeText reviewerRaw of
                          Inl e \<Rightarrow> Inl e
                        | Inr reviewerText \<Rightarrow>
                            Inr (update_tally k (count_reviewer reviewerText)
                                  (update_tally k (count_ai aiText)
                                    (ensure_tally k m))))))))"

section \<open>The host table and the loop\<close>

text \<open>
  The host: every call is an awaited promise, which resolves (\<open>Inr\<close>) or rejects
  (\<open>Inl\<close>). A field is known by its id, a record by its id. The loop returns its result
  together with the \<open>getValue\<close> calls it made, in order.
\<close>

record host =
  getActiveTable :: "js_error + unit"
  getRecordIdList :: "js_error + jsstring list"
  getField :: "jsstring \<Rightarrow> js_error + unit"
  getValue :: "jsstring \<Rightarrow> jsstring \<Rightarrow> js_error + jsval"

type_synonym calls = "(jsstring \<times> jsstring) list"

fun scan :: "host \<Rightarrow> jsstring \<Rightarrow> jsstring \<Rightarrow> jsstring \<Rightarrow> tallies \<Rightarrow> jsstring list
    \<Rightarrow> (js_error + tallies) \<times> calls" where
  "scan h bf af rf m [] = (Inr m, [])"
| "scan h bf af rf m (recordId # rest) =
     (case getValue h bf recordId of
        Inl e \<Rightarrow> (Inl e, [(bf, recordId)])
      | Inr behaviorRaw \<Rightarrow>
          (case getValue h af recordId of
             Inl e \<Rightarrow> (Inl e, [(bf, recordId), (af, recordId)])
           | Inr aiRaw \<Rightarrow>
               (case getValue h rf recordId of
                  Inl e \<Rightarrow> (Inl e, [(bf, recordId), (af, recordId), (rf, recordId)])
                | Inr reviewerRaw \<Rightarrow>
                    (case tally_record m (behaviorRaw, aiRaw, reviewerRaw) of
                       Inl e \<Rightarrow> (Inl e, [(bf, recordId), (af, recordId), (rf, recordId)])
                     | Inr m' \<Rightarrow>
                         (case scan h bf af rf m' rest of
                            (res, log) \<Rightarrow>
                              (res, [(bf, recordId), (af, recordId), (rf, recordId)] @ log))))))"

section \<open>From the tallies to the sorted series\<close>

text \<open>
  \<open>Object.entries\<close> lists the own properties: first the keys that are array indices
  (canonical decimal numerals below \<open>2^32 - 1 = 4294967295\<close>) in ascending numeric
  order, then the other keys in creation order.
\<close>

definition is_digit :: "16 word \<Rightarrow> bool" where
  "is_digit c = (0x30 \<le> c \<and> c \<le> 0x39)"

definition digits_value :: "jsstring \<Rightarrow> int" where
  "digits_value s = foldl (\<lambda>n c. 10 * n + (uint c - 48)) 0 s"

definition is_array_index :: "jsstring \<Rightarrow> bool" where
  "is_array_index s =
     (case s of
        [] \<Rightarrow> False
      | c # cs \<Rightarrow>
          list_all is_digit s \<and> (if c = 0x30 then cs = [] else True)
          \<and> digits_value s < 4294967295)"

definition Object_entries :: "tallies \<Rightarrow> tallies" where
  "Object_entries m =
     sort_key (\<lambda>e. digits_value (fst e)) (filter (\<lambda>e. is_array_index (fst e)) m)
     @ filter (\<lambda>e. \<not> is_array_index (fst e)) m"

definition to_point :: "jsstring \<times> tally \<Rightarrow> ILinePoint" where
  "to_point e =
     (case e of (k, v) \<Rightarrow>
        \<lparr>aiNormal = aiNormal v, aiViolation = aiViolation v,
         reviewerNormal = reviewerNormal v, reviewerViolation = reviewerViolation v,
         behavior = k\<rparr>)"

text \<open>
  \<open>result.sort(cmp)\<close> is a stable sort: an element moves behind another only when
  \<open>cmp\<close> puts it strictly after (a result above 0). For a consistent comparator every
  stable sort gives the same array; insertion from the right is one.
  \<open>String.prototype.localeCompare\<close> with the \<open>zh-CN\<close> collation is a parameter of the
  model.
\<close>

fun insort_cmp :: "('a \<Rightarrow> 'a \<Rightarrow> int) \<Rightarrow> 'a \<Rightarrow> 'a list \<Rightarrow> 'a list" where
  "insort_cmp c x [] = [x]"
| "insort_cmp c x (y # ys) = (if c x y > 0 then y # insort_cmp c x ys else x # y # ys)"

definition js_sort :: "('a \<Rightarrow> 'a \<Rightarrow> int) \<Rightarrow> 'a list \<Rightarrow> 'a list" where
  "js_sort c xs = foldr (insort_cmp c) xs []"

definition by_behavior :: "(jsstring \<Rightarrow> jsstring \<Rightarrow> int) \<Rightarrow> ILinePoint \<Rightarrow> ILinePoint \<Rightarrow> int" where
  "by_behavior localeCompare a b = localeCompare (behavior a) (behavior b)"

definition series_of :: "(jsstring \<Rightarrow> jsstring \<Rightarrow> int) \<Rightarrow> tallies \<Rightarrow> ILinePoint list" where
  "series_of localeCompare m =
     js_sort (by_behavior localeCompare) (map to_point (Object_entries m))"

text \<open>
  The body of the \<open>try\<close> block (lines 106 to 175), up to the value handed to
  \<open>setData\<close>. The source gives it no name; the specification calls it \<open>aggregate\<close>.
\<close>

definition aggregate :: "(jsstring \<Rightarrow> jsstring \<Rightarrow> int) \<Rightarrow> host \<Rightarrow> jsstring \<Rightarrow> jsstring \<Rightarrow> jsstring
    \<Rightarrow> (js_error + ILinePoint list) \<times> calls" where
  "aggregate localeCompare h bf af rf =
     (case getActiveTable h of
        Inl e \<Rightarrow> (Inl e, [])
      | Inr table \<Rightarrow>
          (case getRecordIdList h of
             Inl e \<Rightarrow> (Inl e, [])
           | Inr recordIdList \<Rightarrow>
               (case getField h bf of
                  Inl e \<Rightarrow> (Inl e, [])
                | Inr behaviorField \<Rightarrow>
                    (case getField h af of
                       Inl e \<Rightarrow> (Inl e, [])
                     | Inr aiField \<Rightarrow>
                         (case getField h rf of
                            Inl e \<Rightarrow> (Inl e, [])
                          | Inr reviewerField \<Rightarrow>
                              (case scan h bf af rf [] recordIdList of
                                 (Inl e, log) \<Rightarrow> (Inl e, log)
                               | (Inr m, log) \<Rightarrow> (Inr (series_of localeCompare m), log)))))))"

section \<open>The component's state and its effects\<close>

record IChartConfig =
  behaviorFieldId :: "jsstring option"
  aiFieldId :: "jsstring option"
  reviewerFieldId :: "jsstring option"

record ui_state =
  config :: IChartConfig
  data :: "ILinePoint list"
  loading :: bool

definition defaultConfig :: IChartConfig where
  "defaultConfig = \<lparr>behaviorFieldId = None, aiFieldId = None, reviewerFieldId = None\<rparr>"

definition initial_state :: ui_state where
  "initial_state = \<lparr>config = defaultConfig, data = [], loading = False\<rparr>"

text \<open>\<open>!config.fieldId\<close>: the id is \<open>undefined\<close> or the empty string.\<close>

definition unset :: "jsstring option \<Rightarrow> bool" where
  "unset x = (x = None \<or> x = Some [])"

text \<open>The configuration gate: the guard of line 100 does not return.\<close>

definition gate :: "IChartConfig \<Rightarrow> bool" where
  "gate c = (\<not> (unset (behaviorFieldId c) \<or> unset (aiFieldId c) \<or> unset (reviewerFieldId c)))"

text \<open>
  Effect 2: the listener of \<open>dashboard.onConfigChange\<close>; the event carries a
  configuration or none.
\<close>

definition onConfigChange :: "IChartConfig option \<Rightarrow> ui_state \<Rightarrow> ui_state" where
  "onConfigChange e st = (case e of None \<Rightarrow> st | Some c \<Rightarrow> st\<lparr>config := c\<rparr>)"

text \<open>
  Effect 4 (lines 98 to 184), run to completion: the two early returns, then
  \<open>setLoading(true)\<close>, the \<open>try\<close> block ending in \<open>setData(result)\<close>, and the \<open>finally\<close>
  block with \<open>setLoading(false)\<close>. A rejected promise skips \<open>setData\<close> and reaches
  \<open>finally\<close>. The render-complete signal of \<open>finally\<close> changes no state and is left out.
\<close>

definition effect4 :: "(jsstring \<Rightarrow> jsstring \<Rightarrow> int) \<Rightarrow> host \<Rightarrow> bool \<Rightarrow> ui_state
    \<Rightarrow> ui_state \<times> calls" where
  "effect4 localeCompare h isConfig st =
     (if isConfig then (st, [])
      else if unset (behaviorFieldId (config st)) \<or> unset (aiFieldId (config st))
              \<or> unset (reviewerFieldId (config st))
        then (st, [])
      else
        (case aggregate localeCompare h (the (behaviorFieldId (config st)))
                (the (aiFieldId (config st))) (the (reviewerFieldId (config st))) of
           (Inl e, log) \<Rightarrow> (st\<lparr>loading := True\<rparr>\<lparr>loading := False\<rparr>, log)
         | (Inr result, log) \<Rightarrow>
             (st\<lparr>loading := True\<rparr>\<lparr>data := result\<rparr>\<lparr>loading := False\<rparr>, log)))"

section \<open>The loop as a sequence of changes\<close>

text \<open>
  For the proofs the loop body is split in two: what a record asks for (an error, nothing,
  or a key with the two normalized verdicts), which does not depend on the tallies, and
  how that changes the tallies. \<open>abs_change\<close> is the same change on the tallies seen as a
  finite map, where the order of creation is forgotten.
\<close>

definition bump :: "jsstring \<Rightarrow> jsval \<Rightarrow> jsval \<Rightarrow> tallies \<Rightarrow> tallies" where
  "bump k aiText reviewerText m =
     update_tally k (count_reviewer reviewerText)
       (update_tally k (count_ai aiText) (ensure_tally k m))"

definition row_change :: "jsval \<times> jsval \<times> jsval \<Rightarrow> js_error + (jsstring \<times> jsval \<times> jsval) option" where
  "row_change row =
     (case row of (behaviorRaw, aiRaw, reviewerRaw) \<Rightarrow>
      (case normalizeText behaviorRaw of
         Inl e \<Rightarrow> Inl e
       | Inr behavior' \<Rightarrow>
           if falsy behavior' then Inr None
           else
             (case ToString behavior' of
                Inl e \<Rightarrow> Inl e
              | Inr k \<Rightarrow>
                  (case normalizeText aiRaw of
                     Inl e \<Rightarrow> Inl e
                   | Inr aiText \<Rightarrow>
                       (case normalizeText reviewerRaw of
                          Inl e \<Rightarrow> Inl e
                        | Inr reviewerText \<Rightarrow> Inr (Some (k, aiText, reviewerText)))))))"


definition apply_change :: "js_error + (jsstring \<times> jsval \<times> jsval) option \<Rightarrow> tallies \<Rightarrow> tallies" where
  "apply_change c m =
     (case c of
        Inl e \<Rightarrow> m
      | Inr None \<Rightarrow> m
      | Inr (Some (k, aiText, reviewerText)) \<Rightarrow> bump k aiText reviewerText m)"

definition abs_bump :: "jsstring \<Rightarrow> (tally \<Rightarrow> tally) \<Rightarrow> (jsstring \<rightharpoonup> tally) \<Rightarrow> (jsstring \<rightharpoonup> tally)" where
  "abs_bump k f \<mu> =
     (case \<mu> k of
        Some t \<Rightarrow> \<mu>(k \<mapsto> f t)
      | None \<Rightarrow> if k \<in> set Object_prototype_keys then \<mu> else \<mu>(k \<mapsto> f zero_tally))"

definition abs_change :: "js_error + (jsstring \<times> jsval \<times> jsval) option
    \<Rightarrow> (jsstring \<rightharpoonup> tally) \<Rightarrow> (jsstring \<rightharpoonup> tally)" where
  "abs_change c \<mu> =
     (case c of
        Inl e \<Rightarrow> \<mu>
      | Inr None \<Rightarrow> \<mu>
      | Inr (Some (k, aiText, reviewerText)) \<Rightarrow>
          abs_bump k (count_reviewer reviewerText \<circ> count_ai aiText) \<mu>)"

section \<open>Hosts and comparators for the examples\<close>

text \<open>
  An in-memory table as a host: each row is a record id with its three cells, a cell being
  a value or the rejection of the accessor's promise.
\<close>

definition fld_behavior :: jsstring where
  "fld_behavior = ascii ''fldBehavior''"

definition fld_ai :: jsstring where
  "fld_ai = ascii ''fldAi''"

definition fld_reviewer :: jsstring where
  "fld_reviewer = ascii ''fldReviewer''"

type_synonym cell = "js_error + jsval"

definition table_host :: "(jsstring \<times> cell \<times> cell \<times> cell) list \<Rightarrow> host" where
  "table_host rows =
     \<lparr>getActiveTable = Inr (),
      getRecordIdList = Inr (map fst rows),
      getField = (\<lambda>f. Inr ()),
      getValue = (\<lambda>f r.
        (case map_of rows r of
           None \<Rightarrow> Inl (Rejected r)
         | Some (b, a, v) \<Rightarrow>
             if f = fld_behavior then b
             else if f = fld_ai then a
             else if f = fld_reviewer then v
             else Inl (Rejected f)))\<rparr>"

definition full_config :: IChartConfig where
  "full_config =
     \<lparr>behaviorFieldId = Some fld_behavior, aiFieldId = Some fld_ai,
      reviewerFieldId = Some fld_reviewer\<rparr>"

definition text_cell :: "string \<Rightarrow> cell" where
  "text_cell s = Inr (JString (ascii s))"

definition normal :: cell where
  "normal = Inr (JString verdict_normal)"

definition violation :: cell where
  "violation = Inr (JString verdict_violation)"

text \<open>The three records of the specification's end-to-end scenario.\<close>

definition scenario_rows :: "(jsstring \<times> cell \<times> cell \<times> cell) list" where
  "scenario_rows =
     [(ascii ''rec1'', text_cell ''A'', normal, normal),
      (ascii ''rec2'', text_cell ''A'', violation, normal),
      (ascii ''rec3'', text_cell ''B'', normal, violation)]"

definition point :: "string \<Rightarrow> nat \<Rightarrow> nat \<Rightarrow> nat \<Rightarrow> nat \<Rightarrow> ILinePoint" where
  "point s an av rn rv =
     \<lparr>aiNormal = an, aiViolation = av, reviewerNormal = rn, reviewerViolation = rv,
      behavior = ascii s\<rparr>"

text \<open>
  A comparator to run the examples with: the order of the code units. It is a consistent
  comparator that returns 0 for identical strings only.
\<close>

fun code_unit_compare :: "jsstring \<Rightarrow> jsstring \<Rightarrow> int" where
  "code_unit_compare [] [] = 0"
| "code_unit_compare [] (y # ys) = - 1"
| "code_unit_compare (x # xs) [] = 1"
| "code_unit_compare (x # xs) (y # ys) =
     (if x < y then - 1 else if y < x then 1 else code_unit_compare xs ys)"

text \<open>
  \<open>localeCompare\<close> has to return 0 for two strings that are canonically equivalent in
  Unicode, in every locale (ECMA-262, String.prototype.localeCompare). U+212B ANGSTROM SIGN
  and U+00C5 LATIN CAPITAL LETTER A WITH RING ABOVE are two such strings of one code unit
  each. \<open>canonical_compare\<close> honours this equivalence and orders by code units otherwise.
\<close>

definition fold_angstrom :: "16 word \<Rightarrow> 16 word" where
  "fold_angstrom c = (if c = 0x212B then 0xC5 else c)"

definition canonical_compare :: "jsstring \<Rightarrow> jsstring \<Rightarrow> int" where
  "canonical_compare a b = code_unit_compare (map fold_angstrom a) (map fold_angstrom b)"


text \<open>
  The state after the component has received the full configuration and effect 4 has run
  on the scenario table.
\<close>

definition loaded_state :: ui_state where
  "loaded_state =
     fst (effect4 code_unit_compare (table_host scenario_rows) False
            (onConfigChange (Some full_config) initial_state))"

definition skip_rows :: "(jsstring \<times> cell \<times> cell \<times> cell) list" where
  "skip_rows =
     [(ascii ''rec1'', text_cell ''A'', normal, normal),
      (ascii ''rec2'', text_cell [], normal, violation),
      (ascii ''rec3'', text_cell ''B'', normal, violation)]"

definition reject_rows :: "(jsstring \<times> cell \<times> cell \<times> cell) list" where
  "reject_rows =
     [(ascii ''rec1'', text_cell ''A'', normal, normal),
      (ascii ''rec2'', text_cell ''A'', Inl (Rejected (ascii ''io'')), normal),
      (ascii ''rec3'', text_cell ''B'', normal, violation)]"

definition prototype_rows :: "(jsstring \<times> cell \<times> cell \<times> cell) list" where
  "prototype_rows =
     [(ascii ''rec1'', text_cell ''constructor'', normal, normal),
      (ascii ''rec2'', text_cell ''B'', normal, violation)]"

text \<open>
  The cell values the host produces: primitives, objects whose \<open>text\<close> (or, without
  \<open>text\<close>, \<open>name\<close>) is a string, objects with neither that have no property
  \<open>toString\<close> of their own, and arrays starting with such a value.
\<close>

fun host_value :: "jsval \<Rightarrow> bool" where
  "host_value (JArray []) = True"
| "host_value (JArray (v # vs)) = host_value v"
| "host_value (JObject ps) =
     (case map_of ps (ascii ''text'') of
        Some t \<Rightarrow> (case t of JString s \<Rightarrow> True | _ \<Rightarrow> False)
      | None \<Rightarrow>
          (case map_of ps (ascii ''name'') of
             Some n \<Rightarrow> (case n of JString s \<Rightarrow> True | _ \<Rightarrow> False)
           | None \<Rightarrow> map_of ps (ascii ''toString'') = None))"
| "host_value v = True"

section \<open>Properties of normalizeText\<close>

text \<open>
  C8. For an array, \<open>normalizeText\<close> is \<open>normalizeText\<close> of its first element, whatever
  the other elements are, and the empty string for the empty array; so
  \<open>normalizeText([{text:"A"}, {text:"B"}])\<close> is \<open>"A"\<close>.
\<close>

theorem normalizeText_first_element:
  "normalizeText (JArray (v # vs)) = normalizeText v
   \<and> normalizeText (JArray []) = Inr (JString [])
   \<and> normalizeText (JArray [JObject [(ascii ''text'', JString (ascii ''A''))],
                             JObject [(ascii ''text'', JString (ascii ''B''))]])
       = Inr (JString (ascii ''A''))"
  by (simp add: ascii_def)

text \<open>
  C9. For an object, \<open>normalizeText\<close> returns the value of the property \<open>text\<close> when the
  object has one; otherwise the value of the property \<open>name\<close> when it has one; otherwise
  it falls through to \<open>String(v)\<close>. With both properties, in either order, \<open>text\<close> wins.
\<close>

theorem normalizeText_tag_precedence:
  "(map_of ps (ascii ''text'') = Some t \<longrightarrow> normalizeText (JObject ps) = Inr t)
   \<and> (map_of ps (ascii ''text'') = None \<and> map_of ps (ascii ''name'') = Some n
        \<longrightarrow> normalizeText (JObject ps) = Inr n)
   \<and> (map_of ps (ascii ''text'') = None \<and> map_of ps (ascii ''name'') = None
        \<longrightarrow> normalizeText (JObject ps) = String_of (JObject ps))
   \<and> normalizeText (JObject [(ascii ''text'', JString (ascii ''T'')),
                              (ascii ''name'', JString (ascii ''N''))])
       = Inr (JString (ascii ''T''))
   \<and> normalizeText (JObject [(ascii ''name'', JString (ascii ''N'')),
                              (ascii ''text'', JString (ascii ''T''))])
       = Inr (JString (ascii ''T''))"
  by (simp add: ascii_def)

theorem normalizeText_tag_precedence_witness:
  "map_of [(ascii ''id'', JNumber (ascii ''7'')), (ascii ''text'', JString (ascii ''T''))]
       (ascii ''text'') = Some (JString (ascii ''T''))
   \<and> normalizeText (JObject [(ascii ''id'', JNumber (ascii ''7'')),
                              (ascii ''text'', JString (ascii ''T''))])
       = Inr (JString (ascii ''T''))
   \<and> map_of [(ascii ''name'', JString (ascii ''N''))] (ascii ''text'') = None
   \<and> map_of [(ascii ''name'', JString (ascii ''N''))] (ascii ''name'')
       = Some (JString (ascii ''N''))
   \<and> normalizeText (JObject [(ascii ''name'', JString (ascii ''N''))])
       = Inr (JString (ascii ''N''))
   \<and> map_of [(ascii ''id'', JNumber (ascii ''7''))] (ascii ''text'') = None
   \<and> map_of [(ascii ''id'', JNumber (ascii ''7''))] (ascii ''name'') = None
   \<and> normalizeText (JObject [(ascii ''id'', JNumber (ascii ''7''))])
       = Inr (JString (ascii ''[object Object]''))"
proof -
  let ?p1 = "[(ascii ''id'', JNumber (ascii ''7'')), (ascii ''text'', JString (ascii ''T''))]"
  let ?p2 = "[(ascii ''name'', JString (ascii ''N''))]"
  let ?p3 = "[(ascii ''id'', JNumber (ascii ''7''))]"
  have a1: "map_of ?p1 (ascii ''text'') = Some (JString (ascii ''T''))"
    by (simp add: ascii_def)
  have a2: "map_of ?p2 (ascii ''text'') = None"
    and a3: "map_of ?p2 (ascii ''name'') = Some (JString (ascii ''N''))"
    by (simp_all add: ascii_def)
  have a4: "map_of ?p3 (ascii ''text'') = None" and a5: "map_of ?p3 (ascii ''name'') = None"
    by (simp_all add: ascii_def)
  have s: "String_of (JObject ?p3) = Inr (JString (ascii ''[object Object]''))"
    by (simp add: String_of_def ascii_def)
  from a1 normalizeText_tag_precedence[of ?p1 "JString (ascii ''T'')"]
  have c1: "normalizeText (JObject ?p1) = Inr (JString (ascii ''T''))" by blast
  from a2 a3 normalizeText_tag_precedence[of ?p2 _ "JString (ascii ''N'')"]
  have c2: "normalizeText (JObject ?p2) = Inr (JString (ascii ''N''))" by blast
  from a4 a5 normalizeText_tag_precedence[of ?p3]
  have "normalizeText (JObject ?p3) = String_of (JObject ?p3)" by blast
  with s have c3: "normalizeText (JObject ?p3) = Inr (JString (ascii ''[object Object]''))"
    by simp
  from a1 a2 a3 a4 a5 c1 c2 c3 show ?thesis by blast
qed

text \<open>
  C5. \<open>normalizeText\<close> should return a string and never raise, for every shape of value.
  It does neither: for \<open>{text: 5}\<close>, an object with \<open>text\<close>, it returns the number 5,
  because the cast \<open>as string\<close> converts nothing; and for \<open>{toString: 5}\<close>, an object
  with neither \<open>text\<close> nor \<open>name\<close>, \<open>String(v)\<close> throws a TypeError.
\<close>

theorem normalizeText_not_always_string:
  "normalizeText (JObject [(ascii ''text'', JNumber (ascii ''5''))]) = Inr (JNumber (ascii ''5''))
   \<and> normalizeText (JObject [(ascii ''toString'', JNumber (ascii ''5''))]) = Inl TypeError"
  by (simp add: ascii_def String_of_def)

text \<open>On the values the host produces, \<open>normalizeText\<close> returns a string.\<close>

lemma normalizeText_host_value:
  "host_value v \<Longrightarrow> \<exists>s. normalizeText v = Inr (JString s)"
proof (induction v rule: normalizeText.induct)
  case (6 ps)
  then show ?case
    by (auto simp: String_of_def split: option.splits jsval.splits)
qed (simp_all add: String_of_def)

lemma normalizeText_examples:
  "normalizeText JNull = Inr (JString [])"
  "normalizeText (JNumber (ascii ''42'')) = Inr (JString (ascii ''42''))"
  "normalizeText (JBoolean True) = Inr (JString (ascii ''true''))"
  "normalizeText (JObject [(ascii ''id'', JString (ascii ''x''))])
     = Inr (JString (ascii ''[object Object]''))"
  "normalizeText (JArray [JArray [], JString (ascii ''x'')]) = Inr (JString [])"
  by (simp_all add: ascii_def String_of_def)

section \<open>One record\<close>

lemma tally_record_skip:
  "normalizeText b = Inr (JString []) \<Longrightarrow> tally_record m (b, a, v) = Inr m"
  by (simp add: tally_record_def)

lemma tally_record_change:
  "tally_record m row =
     (case row_change row of Inl e \<Rightarrow> Inl e | Inr c \<Rightarrow> Inr (apply_change (Inr c) m))"
  by (simp add: tally_record_def row_change_def apply_change_def bump_def
           split: prod.splits sum.splits)

lemma map_of_update_tally:
  "map_of (update_tally k f m) = (\<lambda>x. if x = k then map_option f (map_of m k) else map_of m x)"
  by (induction m) (auto simp: update_tally_def fun_eq_iff)


lemma map_of_ensure_tally:
  "map_of (ensure_tally k m) =
     (if map_of m k = None \<and> k \<notin> set Object_prototype_keys
      then (map_of m)(k \<mapsto> zero_tally) else map_of m)"
  by (auto simp: ensure_tally_def fun_eq_iff map_add_def split: option.splits)


lemma map_of_bump:
  "map_of (bump k a v m) = abs_bump k (count_reviewer v \<circ> count_ai a) (map_of m)"
  by (auto simp: bump_def abs_bump_def map_of_update_tally map_of_ensure_tally fun_eq_iff
           split: option.splits)


lemma map_of_apply_change: "map_of (apply_change c m) = abs_change c (map_of m)"
  by (simp add: apply_change_def abs_change_def map_of_bump split: sum.splits option.splits)


text \<open>
  The verdict rule, for a category that is not the name of a member of
  \<open>Object.prototype\<close>: the record's tally is the one before (all zero when there was
  none) with the AI verdict and the reviewer verdict counted, each on its own pair of
  counters, and no other tally changes.
\<close>

lemma tally_record_verdicts:
  assumes "normalizeText b = Inr bt" and "\<not> falsy bt" and "ToString bt = Inr k"
    and "normalizeText a = Inr aiText" and "normalizeText v = Inr reviewerText"
    and "k \<notin> set Object_prototype_keys"
  shows "\<exists>m'. tally_record m (b, a, v) = Inr m'
           \<and> map_of m' k = Some (count_reviewer reviewerText (count_ai aiText
                 (case map_of m k of None \<Rightarrow> zero_tally | Some t \<Rightarrow> t)))
           \<and> (\<forall>k'. k' \<noteq> k \<longrightarrow> map_of m' k' = map_of m k')"
  using assms
  by (auto simp: tally_record_change row_change_def apply_change_def map_of_bump abs_bump_def
           split: option.splits)

lemma count_ai_cases:
  "count_ai (JString verdict_normal) t = t\<lparr>aiNormal := aiNormal t + 1\<rparr>"
  "count_ai (JString verdict_violation) t = t\<lparr>aiViolation := aiViolation t + 1\<rparr>"
  "x \<noteq> JString verdict_normal \<Longrightarrow> x \<noteq> JString verdict_violation \<Longrightarrow> count_ai x t = t"
  by (simp_all add: count_ai_def verdict_normal_def verdict_violation_def)

lemma count_reviewer_cases:
  "count_reviewer (JString verdict_normal) t = t\<lparr>reviewerNormal := reviewerNormal t + 1\<rparr>"
  "count_reviewer (JString verdict_violation) t
     = t\<lparr>reviewerViolation := reviewerViolation t + 1\<rparr>"
  "x \<noteq> JString verdict_normal \<Longrightarrow> x \<noteq> JString verdict_violation
     \<Longrightarrow> count_reviewer x t = t"
  by (simp_all add: count_reviewer_def verdict_normal_def verdict_violation_def)

text \<open>
  C1. The verdict rule says that a record whose AI verdict is the string for normal and
  whose reviewer verdict is the string for violation adds one to \<open>aiNormal\<close> and one to
  \<open>reviewerViolation\<close> of its category. For the category \<open>"toString"\<close> the code finds the inherited
  \<open>Object.prototype.toString\<close> under \<open>map["toString"]\<close>, creates no tally and adds to
  properties of that function: no counter of the category is incremented, and the series
  has no tuple for it.
\<close>

theorem verdicts_lost_for_prototype_key:
  "tally_record [] (JString (ascii ''toString''), JString verdict_normal,
       JString verdict_violation) = Inr []
   \<and> fst (aggregate code_unit_compare
            (table_host [(ascii ''rec1'', text_cell ''toString'', normal, violation)])
            fld_behavior fld_ai fld_reviewer) = Inr []"
  by code_simp

section \<open>The loop\<close>

lemma fst_scan_Cons:
  "fst (scan h bf af rf m (r # rest)) =
     (case getValue h bf r of
        Inl e \<Rightarrow> Inl e
      | Inr b \<Rightarrow>
          (case getValue h af r of
             Inl e \<Rightarrow> Inl e
           | Inr a \<Rightarrow>
               (case getValue h rf r of
                  Inl e \<Rightarrow> Inl e
                | Inr v \<Rightarrow>
                    (case tally_record m (b, a, v) of
                       Inl e \<Rightarrow> Inl e
                     | Inr m' \<Rightarrow> fst (scan h bf af rf m' rest)))))"
  by (simp split: sum.splits prod.splits)

lemma scan_host_cong:
  "getValue h = getValue h' \<Longrightarrow> scan h bf af rf m ids = scan h' bf af rf m ids"
  by (induction ids arbitrary: m) (auto split: sum.splits prod.splits)

lemma fst_aggregate:
  "fst (aggregate lc h bf af rf) =
     (case getActiveTable h of
        Inl e \<Rightarrow> Inl e
      | Inr table \<Rightarrow>
          (case getRecordIdList h of
             Inl e \<Rightarrow> Inl e
           | Inr ids \<Rightarrow>
               (case getField h bf of
                  Inl e \<Rightarrow> Inl e
                | Inr f1 \<Rightarrow>
                    (case getField h af of
                       Inl e \<Rightarrow> Inl e
                     | Inr f2 \<Rightarrow>
                         (case getField h rf of
                            Inl e \<Rightarrow> Inl e
                          | Inr f3 \<Rightarrow>
                              (case fst (scan h bf af rf [] ids) of
                                 Inl e \<Rightarrow> Inl e
                               | Inr m \<Rightarrow> Inr (series_of lc m)))))))"
  by (simp add: aggregate_def split: sum.splits prod.splits)

lemma scan_skip:
  assumes "getValue h bf r = Inr b" and "getValue h af r = Inr a" and "getValue h rf r = Inr v"
    and "normalizeText b = Inr (JString [])"
  shows "fst (scan h bf af rf m (xs @ r # ys)) = fst (scan h bf af rf m (xs @ ys))"
  using assms
proof (induction xs arbitrary: m)
  case Nil
  then show ?case by (simp add: fst_scan_Cons tally_record_skip del: scan.simps)
next
  case (Cons x xs)
  then show ?case by (simp add: fst_scan_Cons del: scan.simps split: sum.splits)
qed

text \<open>
  C2. A record whose normalized category is the empty string is skipped: the loop body
  returns the tallies as they were, whatever the two verdict cells hold, and the loop and
  the whole run give the same result as on the list without that record.
\<close>

theorem empty_category_skipped:
  assumes "getValue h bf r = Inr b" and "getValue h af r = Inr a" and "getValue h rf r = Inr v"
    and "normalizeText b = Inr (JString [])"
  shows "tally_record m (b, a, v) = Inr m
         \<and> fst (scan h bf af rf m (xs @ r # ys)) = fst (scan h bf af rf m (xs @ ys))
         \<and> fst (aggregate localeCompare (h\<lparr>getRecordIdList := Inr (xs @ r # ys)\<rparr>) bf af rf)
             = fst (aggregate localeCompare (h\<lparr>getRecordIdList := Inr (xs @ ys)\<rparr>) bf af rf)"
proof -
  let ?h1 = "h\<lparr>getRecordIdList := Inr (xs @ r # ys)\<rparr>"
  let ?h2 = "h\<lparr>getRecordIdList := Inr (xs @ ys)\<rparr>"
  have "scan ?h1 bf af rf [] (xs @ r # ys) = scan h bf af rf [] (xs @ r # ys)"
    by (rule scan_host_cong) simp
  moreover have "scan ?h2 bf af rf [] (xs @ ys) = scan h bf af rf [] (xs @ ys)"
    by (rule scan_host_cong) simp
  moreover have "fst (scan h bf af rf [] (xs @ r # ys)) = fst (scan h bf af rf [] (xs @ ys))"
    by (rule scan_skip[OF assms])
  ultimately have "fst (aggregate localeCompare ?h1 bf af rf)
      = fst (aggregate localeCompare ?h2 bf af rf)"
    by (simp add: fst_aggregate split: sum.splits)
  with tally_record_skip[OF assms(4)] scan_skip[OF assms] show ?thesis by simp
qed

theorem empty_category_skipped_witness:
  "getValue (table_host skip_rows) fld_behavior (ascii ''rec2'') = Inr (JString [])
   \<and> getValue (table_host skip_rows) fld_ai (ascii ''rec2'') = Inr (JString verdict_normal)
   \<and> getValue (table_host skip_rows) fld_reviewer (ascii ''rec2'')
       = Inr (JString verdict_violation)
   \<and> normalizeText (JString []) = Inr (JString [])
   \<and> tally_record [(ascii ''A'', zero_tally)]
        (JString [], JString verdict_normal, JString verdict_violation)
       = Inr [(ascii ''A'', zero_tally)]
   \<and> fst (aggregate code_unit_compare
            ((table_host skip_rows)\<lparr>getRecordIdList :=
                Inr ([ascii ''rec1''] @ ascii ''rec2'' # [ascii ''rec3''])\<rparr>)
            fld_behavior fld_ai fld_reviewer)
       = fst (aggregate code_unit_compare
            ((table_host skip_rows)\<lparr>getRecordIdList :=
                Inr ([ascii ''rec1''] @ [ascii ''rec3''])\<rparr>)
            fld_behavior fld_ai fld_reviewer)"
proof -
  have h1: "getValue (table_host skip_rows) fld_behavior (ascii ''rec2'') = Inr (JString [])"
    by code_simp
  have h2: "getValue (table_host skip_rows) fld_ai (ascii ''rec2'') = Inr (JString verdict_normal)"
    by code_simp
  have h3: "getValue (table_host skip_rows) fld_reviewer (ascii ''rec2'')
      = Inr (JString verdict_violation)"
    by code_simp
  have h4: "normalizeText (JString []) = Inr (JString [])" by simp
  from empty_category_skipped[OF h1 h2 h3 h4, of "[(ascii ''A'', zero_tally)]"
      "[ascii ''rec1'']" "[ascii ''rec3'']" code_unit_compare]
  have c: "tally_record [(ascii ''A'', zero_tally)]
        (JString [], JString verdict_normal, JString verdict_violation)
       = Inr [(ascii ''A'', zero_tally)]
     \<and> fst (aggregate code_unit_compare
            ((table_host skip_rows)\<lparr>getRecordIdList :=
                Inr ([ascii ''rec1''] @ ascii ''rec2'' # [ascii ''rec3''])\<rparr>)
            fld_behavior fld_ai fld_reviewer)
       = fst (aggregate code_unit_compare
            ((table_host skip_rows)\<lparr>getRecordIdList :=
                Inr ([ascii ''rec1''] @ [ascii ''rec3''])\<rparr>)
            fld_behavior fld_ai fld_reviewer)"
    by blast
  from h1 h2 h3 h4 c show ?thesis by blast
qed

lemma scan_rejected:
  assumes "r \<in> set ids"
    and "getValue h bf r = Inl e \<or> getValue h af r = Inl e \<or> getValue h rf r = Inl e"
  shows "\<exists>e'. fst (scan h bf af rf m ids) = Inl e'"
  using assms
proof (induction ids arbitrary: m)
  case Nil
  then show ?case by simp
next
  case (Cons x xs)
  show ?case
  proof (cases "x = r")
    case True
    with Cons.prems show ?thesis
      by (auto simp: fst_scan_Cons simp del: scan.simps split: sum.splits)
  next
    case False
    with Cons.prems have "r \<in> set xs" by simp
    from Cons.IH[OF this Cons.prems(2)] show ?thesis
      by (auto simp: fst_scan_Cons simp del: scan.simps split: sum.splits)
  qed
qed

section \<open>Effect 4\<close>

lemma loaded_state_eq:
  "loaded_state =
     \<lparr>config = full_config, data = [point ''A'' 1 1 2 0, point ''B'' 1 0 0 1],
      loading = False\<rparr>"
  by code_simp

text \<open>The end-to-end scenario of the specification.\<close>

lemma end_to_end_scenario:
  "fst (aggregate code_unit_compare (table_host scenario_rows) fld_behavior fld_ai fld_reviewer)
     = Inr [point ''A'' 1 1 2 0, point ''B'' 1 0 0 1]"
  by code_simp

text \<open>
  C4. When an accessor call of the run is rejected for some record of the list, the run
  sets no series, partial or not: the displayed series is the one from before the run,
  and the run ends with \<open>loading\<close> false.
\<close>

theorem accessor_failure_keeps_series:
  assumes "\<not> isConfig" and "gate (config st)"
    and "behaviorFieldId (config st) = Some bf" and "aiFieldId (config st) = Some af"
    and "reviewerFieldId (config st) = Some rf"
    and "getRecordIdList h = Inr ids" and "r \<in> set ids"
    and "getValue h bf r = Inl e \<or> getValue h af r = Inl e \<or> getValue h rf r = Inl e"
  shows "data (fst (effect4 localeCompare h isConfig st)) = data st
         \<and> \<not> loading (fst (effect4 localeCompare h isConfig st))"
proof -
  obtain e' where "fst (scan h bf af rf [] ids) = Inl e'"
    using scan_rejected[OF assms(7,8)] by blast
  with assms(6) have "\<exists>e'. fst (aggregate localeCompare h bf af rf) = Inl e'"
    by (simp add: fst_aggregate split: sum.splits)
  then obtain e'' log where "aggregate localeCompare h bf af rf = (Inl e'', log)"
    by (metis fst_conv surj_pair)
  with assms(1-5) show ?thesis by (simp add: effect4_def gate_def)
qed

theorem accessor_failure_keeps_series_witness:
  "\<not> False \<and> gate (config (loaded_state\<lparr>loading := True\<rparr>))
   \<and> behaviorFieldId (config (loaded_state\<lparr>loading := True\<rparr>)) = Some fld_behavior
   \<and> aiFieldId (config (loaded_state\<lparr>loading := True\<rparr>)) = Some fld_ai
   \<and> reviewerFieldId (config (loaded_state\<lparr>loading := True\<rparr>)) = Some fld_reviewer
   \<and> getRecordIdList (table_host reject_rows)
       = Inr [ascii ''rec1'', ascii ''rec2'', ascii ''rec3'']
   \<and> ascii ''rec2'' \<in> set [ascii ''rec1'', ascii ''rec2'', ascii ''rec3'']
   \<and> getValue (table_host reject_rows) fld_ai (ascii ''rec2'') = Inl (Rejected (ascii ''io''))
   \<and> data (fst (effect4 code_unit_compare (table_host reject_rows) False
                  (loaded_state\<lparr>loading := True\<rparr>)))
       = [point ''A'' 1 1 2 0, point ''B'' 1 0 0 1]
   \<and> \<not> loading (fst (effect4 code_unit_compare (table_host reject_rows) False
                        (loaded_state\<lparr>loading := True\<rparr>)))"
proof -
  let ?st = "loaded_state\<lparr>loading := True\<rparr>"
  let ?ids = "[ascii ''rec1'', ascii ''rec2'', ascii ''rec3'']"
  have g: "gate (config ?st)" by code_simp
  have f1: "behaviorFieldId (config ?st) = Some fld_behavior"
    and f2: "aiFieldId (config ?st) = Some fld_ai"
    and f3: "reviewerFieldId (config ?st) = Some fld_reviewer"
    by (simp_all add: loaded_state_eq full_config_def)
  have l: "getRecordIdList (table_host reject_rows) = Inr ?ids" by code_simp
  have m: "ascii ''rec2'' \<in> set ?ids" by simp
  have r: "getValue (table_host reject_rows) fld_ai (ascii ''rec2'')
      = Inl (Rejected (ascii ''io''))"
    by code_simp
  then have r': "getValue (table_host reject_rows) fld_behavior (ascii ''rec2'')
        = Inl (Rejected (ascii ''io''))
      \<or> getValue (table_host reject_rows) fld_ai (ascii ''rec2'') = Inl (Rejected (ascii ''io''))
      \<or> getValue (table_host reject_rows) fld_reviewer (ascii ''rec2'')
        = Inl (Rejected (ascii ''io''))"
    by blast
  have n: "\<not> False" by simp
  from accessor_failure_keeps_series[OF n g f1 f2 f3 l m r', of code_unit_compare]
  have "data (fst (effect4 code_unit_compare (table_host reject_rows) False ?st)) = data ?st
      \<and> \<not> loading (fst (effect4 code_unit_compare (table_host reject_rows) False ?st))" .
  moreover have "data ?st = [point ''A'' 1 1 2 0, point ''B'' 1 0 0 1]"
    by (simp add: loaded_state_eq)
  ultimately show ?thesis using g f1 f2 f3 l m r by simp
qed

text \<open>
  When one of the three field ids is unset or empty, the run returns at its guard: it
  makes no accessor call, and the displayed series is empty when it was empty before.
\<close>

lemma gate_false_no_calls:
  assumes "unset (behaviorFieldId (config st)) \<or> unset (aiFieldId (config st))
           \<or> unset (reviewerFieldId (config st))"
  shows "snd (effect4 localeCompare h isConfig st) = []
         \<and> (data st = [] \<longrightarrow> data (fst (effect4 localeCompare h isConfig st)) = [])"
  using assms by (simp add: effect4_def)

lemma gate_false_no_calls_example:
  "(unset (behaviorFieldId (config (onConfigChange (Some (full_config\<lparr>aiFieldId := None\<rparr>))
        initial_state)))
    \<or> unset (aiFieldId (config (onConfigChange (Some (full_config\<lparr>aiFieldId := None\<rparr>))
        initial_state)))
    \<or> unset (reviewerFieldId (config (onConfigChange (Some (full_config\<lparr>aiFieldId := None\<rparr>))
        initial_state))))
   \<and> data (onConfigChange (Some (full_config\<lparr>aiFieldId := None\<rparr>)) initial_state) = []
   \<and> snd (effect4 code_unit_compare (table_host scenario_rows) False
            (onConfigChange (Some (full_config\<lparr>aiFieldId := None\<rparr>)) initial_state)) = []
   \<and> data (fst (effect4 code_unit_compare (table_host scenario_rows) False
            (onConfigChange (Some (full_config\<lparr>aiFieldId := None\<rparr>)) initial_state))) = []"
proof -
  let ?st = "onConfigChange (Some (full_config\<lparr>aiFieldId := None\<rparr>)) initial_state"
  have u: "unset (behaviorFieldId (config ?st)) \<or> unset (aiFieldId (config ?st))
      \<or> unset (reviewerFieldId (config ?st))"
    by (simp add: onConfigChange_def unset_def)
  have d: "data ?st = []" by (simp add: onConfigChange_def initial_state_def)
  from gate_false_no_calls[OF u, of code_unit_compare "table_host scenario_rows" False] d
  have "snd (effect4 code_unit_compare (table_host scenario_rows) False ?st) = []
      \<and> data (fst (effect4 code_unit_compare (table_host scenario_rows) False ?st)) = []"
    by blast
  with u d show ?thesis by blast
qed

text \<open>
  C3. With one of the three field ids unset or empty, the run should give an empty series
  and make no accessor call. It makes no call, but the guard returns without setting a
  series: after a run on the full configuration, a configuration whose
  \<open>behaviorFieldId\<close> is the empty string leaves the series of that run in place, and
  the series is not empty.
\<close>

theorem gate_false_series_not_empty:
  "unset (behaviorFieldId (full_config\<lparr>behaviorFieldId := Some []\<rparr>))
   \<and> snd (effect4 code_unit_compare (table_host scenario_rows) False
            (onConfigChange (Some (full_config\<lparr>behaviorFieldId := Some []\<rparr>))
               loaded_state))
       = []
   \<and> data (fst (effect4 code_unit_compare (table_host scenario_rows) False
                  (onConfigChange (Some (full_config\<lparr>behaviorFieldId := Some []\<rparr>))
                     loaded_state)))
       = [point ''A'' 1 1 2 0, point ''B'' 1 0 0 1]"
  by (simp add: loaded_state_eq unset_def effect4_def onConfigChange_def full_config_def)

text \<open>
  C7. The series should be empty whenever the gate is false. Start from the initial state,
  receive the full configuration and run effect 4, then receive a configuration without
  \<open>aiFieldId\<close> and run effect 4 again: the gate is false, the effect returns at its
  guard, and the series of the first run is still displayed.
\<close>

theorem stale_series_after_config_change:
  "\<not> gate (config (fst (effect4 code_unit_compare (table_host scenario_rows) False
        (onConfigChange (Some (full_config\<lparr>aiFieldId := None\<rparr>))
          (fst (effect4 code_unit_compare (table_host scenario_rows) False
             (onConfigChange (Some full_config) initial_state)))))))
   \<and> data (fst (effect4 code_unit_compare (table_host scenario_rows) False
        (onConfigChange (Some (full_config\<lparr>aiFieldId := None\<rparr>))
          (fst (effect4 code_unit_compare (table_host scenario_rows) False
             (onConfigChange (Some full_config) initial_state))))))
       = [point ''A'' 1 1 2 0, point ''B'' 1 0 0 1]"
  by code_simp

section \<open>Permuting the records\<close>










section \<open>The sorted series\<close>

lemma mset_Object_entries: "mset (Object_entries m) = mset m"
  by (simp add: Object_entries_def)


lemma mset_insort_cmp: "mset (insort_cmp c x ys) = add_mset x (mset ys)"
  by (induction ys) auto

lemma mset_js_sort: "mset (js_sort c xs) = mset xs"
  by (induction xs) (simp_all add: js_sort_def mset_insort_cmp)




lemma mset_series_of: "mset (series_of lc m) = image_mset to_point (mset m)"
  by (simp add: series_of_def mset_js_sort mset_Object_entries)




lemma code_unit_compare_sign: "(code_unit_compare a b < 0) = (code_unit_compare b a > 0)"
  by (induction a b rule: code_unit_compare.induct) auto

lemma code_unit_compare_trans:
  "code_unit_compare a b \<le> 0 \<Longrightarrow> code_unit_compare b d \<le> 0 \<Longrightarrow> code_unit_compare a d \<le> 0"
proof (induction a b arbitrary: d rule: code_unit_compare.induct)
  case 1
  then show ?case by simp
next
  case (2 y ys)
  then show ?case by (cases d) auto
next
  case (3 x xs)
  then show ?case by simp
next
  case (4 x xs y ys)
  then show ?case by (cases d) (auto split: if_splits)
qed

text \<open>\<open>canonical_compare\<close> is a consistent comparator too, with a tie.\<close>

lemma canonical_compare_consistent:
  "(canonical_compare a b < 0) = (canonical_compare b a > 0)"
  "canonical_compare a b \<le> 0 \<Longrightarrow> canonical_compare b d \<le> 0 \<Longrightarrow> canonical_compare a d \<le> 0"
  "canonical_compare [0x212B] [0xC5] = 0"
  unfolding canonical_compare_def
  by (rule code_unit_compare_sign, erule (1) code_unit_compare_trans)
     (simp add: fold_angstrom_def)

text \<open>
  The categories of the series are the keys of the tallies, each once; and a run creates a
  key for exactly the observed categories that do not name a member of
  \<open>Object.prototype\<close>.
\<close>

lemma behaviors_of_series:
  "mset (map behavior (series_of lc m)) = mset (map fst m)"
proof -
  have "map behavior (map to_point xs) = map fst xs" for xs :: tallies
    by (induction xs) (auto simp: to_point_def)
  then have "image_mset behavior (image_mset to_point (mset m)) = mset (map fst m)"
    by (metis mset_map)
  then show ?thesis by (simp add: mset_series_of)
qed

lemma dom_abs_change:
  "dom (abs_change c \<mu>) =
     dom \<mu> \<union> (case c of
                Inl e \<Rightarrow> {}
              | Inr None \<Rightarrow> {}
              | Inr (Some (k, a, v)) \<Rightarrow> if k \<in> set Object_prototype_keys then {} else {k})"
  by (auto simp: abs_change_def abs_bump_def split: sum.splits option.splits if_splits)

lemma keys_of_fold:
  "fst ` set (fold (\<lambda>r. apply_change (g r)) ids m) =
     fst ` set m \<union> {k. \<exists>r \<in> set ids. \<exists>a v. g r = Inr (Some (k, a, v))
                       \<and> k \<notin> set Object_prototype_keys}"
proof (induction ids arbitrary: m)
  case Nil
  show ?case by simp
next
  case (Cons r rest)
  have "fst ` set (apply_change (g r) m) = dom (map_of (apply_change (g r) m))"
    by (simp add: dom_map_of_conv_image_fst)
  also have "\<dots> = fst ` set m \<union> (case g r of
                Inl e \<Rightarrow> {}
              | Inr None \<Rightarrow> {}
              | Inr (Some (k, a, v)) \<Rightarrow> if k \<in> set Object_prototype_keys then {} else {k})"
    by (simp add: map_of_apply_change dom_abs_change dom_map_of_conv_image_fst)
  finally have step: "fst ` set (apply_change (g r) m) = fst ` set m \<union> (case g r of
                Inl e \<Rightarrow> {}
              | Inr None \<Rightarrow> {}
              | Inr (Some (k, a, v)) \<Rightarrow> if k \<in> set Object_prototype_keys then {} else {k})" .
  show ?case
    unfolding fold_Cons comp_apply Cons.IH step
    by (auto split: sum.splits option.splits if_splits)
qed

lemma Object_entries_order:
  "map fst (Object_entries
     [(ascii ''b'', zero_tally), (ascii ''10'', zero_tally), (ascii ''9'', zero_tally),
      (ascii ''01'', zero_tally), (ascii ''4294967295'', zero_tally),
      (ascii ''4294967294'', zero_tally)])
   = [ascii ''9'', ascii ''10'', ascii ''4294967294'', ascii ''b'', ascii ''01'',
      ascii ''4294967295'']"
  by (simp add: Object_entries_def is_array_index_def is_digit_def digits_value_def ascii_def)

text \<open>
  C6. The series should hold one tuple for each category observed. A record of category
  \<open>"constructor"\<close> is observed and gets none: \<open>map["constructor"]\<close> is the inherited
  \<open>Object.prototype.constructor\<close>, so no own property is created and \<open>Object.entries\<close>
  never lists the category.
\<close>

theorem series_misses_prototype_category:
  "fst (aggregate code_unit_compare (table_host prototype_rows)
          fld_behavior fld_ai fld_reviewer)
     = Inr [point ''B'' 1 0 0 1]"
  by code_simp




end
